theory Spec2Isabelle
  imports Main "HOL-Library.Word"
begin

unbundle bit_operations_syntax

section \<open>Data model of the reverse-tunnel client (internal/reverse/main.go)\<close>

type_synonym byte = "8 word"

text \<open>
  Go's \<^verbatim>\<open>[]byte("...")\<close> of an ASCII literal: one byte per character.
\<close>

definition bytes_of :: "string \<Rightarrow> byte list" where
  "bytes_of s = map of_char s"

text \<open>
  The errors the package produces or passes on: \<^verbatim>\<open>io.EOF\<close>, an error of the
  network layer, \<^verbatim>\<open>errors.Wrap(err, msg)\<close>, the \<^verbatim>\<open>errors.Errorf\<close> of
  \<^verbatim>\<open>readMessage\<close> (expected size, received size, the data), the
  \<^verbatim>\<open>errors.Wrapf(err, "%d failed attempts", attempt)\<close> of \<^verbatim>\<open>Start\<close>, and a
  run-time panic (index out of range, nil dereference).
\<close>

datatype error =
    EOF
  | NetError string
  | Wrap string error
  | UndersizedRead nat nat "byte list"
  | FailedAttempts nat error
  | Panic string

text \<open>The \<^verbatim>\<open>header\<close> struct.\<close>

record header =
  channelID :: "16 word"
  isCommand :: bool
  payloadLen :: "32 word"

definition maxPayloadLen :: nat where
  "maxPayloadLen = 65529"



section \<open>The broker connection\<close>

text \<open>
  The \<^verbatim>\<open>*tls.Conn\<close> as the session sees it. \<open>inbound\<close> is what the stream will hand
  to the successive \<^verbatim>\<open>Read\<close> calls: each entry is a block of bytes that is available
  at once, and the error (if any) that the stream reports when that block has been
  delivered. \<open>wfail\<close> says, for the k-th \<^verbatim>\<open>Write\<close> call on the connection, whether it
  fails, after how many bytes and with which error. \<open>rlog\<close> records the buffer size of
  every \<^verbatim>\<open>Read\<close> call made, \<open>written\<close> the bytes accepted by every \<^verbatim>\<open>Write\<close> call.
\<close>

record tlsConn =
  inbound :: "(byte list \<times> error option) list"
  wfail :: "nat \<Rightarrow> (nat \<times> error) option"
  rlog :: "nat list"
  written :: "byte list list"

text \<open>
  \<^verbatim>\<open>conn.Read(p)\<close> with \<open>m = len(p)\<close>: at most \<open>m\<close> bytes of the next block; the
  rest of a longer block stays buffered. A closed stream gives \<open>(0, io.EOF)\<close>.
\<close>

definition conn_Read :: "tlsConn \<Rightarrow> nat \<Rightarrow> (byte list \<times> error option) \<times> tlsConn" where
  "conn_Read c m =
     (case inbound c of
        [] \<Rightarrow> (([], Some EOF), c\<lparr>rlog := rlog c @ [m]\<rparr>)
      | (bs, e) # rest \<Rightarrow>
          if length bs \<le> m
          then ((bs, e), c\<lparr>inbound := rest, rlog := rlog c @ [m]\<rparr>)
          else ((take m bs, None), c\<lparr>inbound := (drop m bs, e) # rest, rlog := rlog c @ [m]\<rparr>))"

text \<open>
  \<^verbatim>\<open>conn.Write(b)\<close>: all of \<open>b\<close> and no error, or fewer bytes and an error.
\<close>

definition conn_Write :: "tlsConn \<Rightarrow> byte list \<Rightarrow> (nat \<times> error option) \<times> tlsConn" where
  "conn_Write c b =
     (case wfail c (length (written c)) of
        None \<Rightarrow> ((length b, None), c\<lparr>written := written c @ [b]\<rparr>)
      | Some (n, e) \<Rightarrow> ((min n (length b), Some e), c\<lparr>written := written c @ [take n b]\<rparr>))"

text \<open>
  \<^verbatim>\<open>io.LimitReader(conn, size)\<close> followed by one \<^verbatim>\<open>Read(p)\<close> (Go standard library):
  with no bytes left in the limit it returns \<open>(0, io.EOF)\<close> without touching the
  connection; otherwise it reads into at most \<open>size\<close> bytes of \<open>p\<close>.
\<close>

definition limitReader_Read :: "tlsConn \<Rightarrow> nat \<Rightarrow> nat \<Rightarrow> (byte list \<times> error option) \<times> tlsConn" where
  "limitReader_Read c N plen =
     (if N = 0 then (([], Some EOF), c)
      else conn_Read c (if plen > N then N else plen))"

text \<open>
  \<^verbatim>\<open>readBytes\<close>: the buffer \<open>buff\<close> is allocated with \<open>size\<close> zero bytes, one read fills
  its first \<open>n\<close> bytes, and the whole buffer is returned unless nothing was read and an
  error was reported. The size is an \<^verbatim>\<open>int64\<close> converted from a \<^verbatim>\<open>uint32\<close>, never
  negative.
\<close>

definition readBytes :: "tlsConn \<Rightarrow> nat \<Rightarrow> (error + byte list) \<times> tlsConn" where
  "readBytes c sz =
     (case limitReader_Read c sz sz of
        ((got, err), c') \<Rightarrow>
          (case err of
             Some e \<Rightarrow> if length got = 0 then (Inl e, c')
                       else (Inr (got @ replicate (sz - length got) 0), c')
           | None \<Rightarrow> (Inr (got @ replicate (sz - length got) 0), c')))"

definition readMessage :: "tlsConn \<Rightarrow> 32 word \<Rightarrow> (error + byte list) \<times> tlsConn" where
  "readMessage c sz =
     (case readBytes c (unat sz) of
        (Inl e, c') \<Rightarrow> (Inl e, c')
      | (Inr data, c') \<Rightarrow>
          if (of_nat (length data) :: 32 word) \<noteq> sz
          then (Inl (UndersizedRead (unat sz) (length data) data), c')
          else (Inr data, c'))"

section \<open>Frame codec\<close>

text \<open>\<^verbatim>\<open>binary.BigEndian\<close>: \<^verbatim>\<open>PutUint16\<close>, \<^verbatim>\<open>PutUint32\<close>, \<^verbatim>\<open>Uint16\<close>, \<^verbatim>\<open>Uint32\<close>.\<close>

definition PutUint16 :: "16 word \<Rightarrow> byte list" where
  "PutUint16 v = [ucast (drop_bit 8 v), ucast v]"

definition PutUint32 :: "32 word \<Rightarrow> byte list" where
  "PutUint32 v = [ucast (drop_bit 24 v), ucast (drop_bit 16 v), ucast (drop_bit 8 v), ucast v]"

definition Uint16 :: "byte list \<Rightarrow> 16 word" where
  "Uint16 b = ucast (b ! 1) OR push_bit 8 (ucast (b ! 0))"

definition Uint32 :: "byte list \<Rightarrow> 32 word" where
  "Uint32 b = ucast (b ! 3) OR push_bit 8 (ucast (b ! 2))
                OR push_bit 16 (ucast (b ! 1)) OR push_bit 24 (ucast (b ! 0))"

text \<open>
  \<^verbatim>\<open>buildFrame\<close>: six header bytes, then the data. \<^verbatim>\<open>uint32(len(data))\<close> keeps the low
  32 bits of the length.
\<close>

definition buildFrame :: "16 word \<Rightarrow> byte list \<Rightarrow> byte list" where
  "buildFrame chan data =
     PutUint16 (chan AND 0x7fff) @ PutUint32 (of_nat (length data)) @ data"

text \<open>
  The decoding half of \<^verbatim>\<open>readHeader\<close>, applied to the bytes that \<^verbatim>\<open>readMessage\<close>
  returned. Go's slice accesses panic on fewer than six bytes.
\<close>

definition decodeHeader :: "byte list \<Rightarrow> error + header" where
  "decodeHeader data =
     (if length data < 6 then Inl (Panic ''index out of range'')
      else let encodedChannelID = Uint16 data in
        Inr \<lparr>channelID = encodedChannelID AND 0x7fff,
             isCommand = (encodedChannelID AND 0x8000 > 0),
             payloadLen = Uint32 (drop 2 data)\<rparr>)"

definition readHeader :: "tlsConn \<Rightarrow> (error + header) \<times> tlsConn" where
  "readHeader c =
     (case readMessage c 6 of
        (Inl e, c') \<Rightarrow> (Inl e, c')
      | (Inr data, c') \<Rightarrow> (decodeHeader data, c'))"

section \<open>Chunked send\<close>

text \<open>
  The loop of \<^verbatim>\<open>sendMetricData\<close>, from a given \<open>offset\<close>. The chunk \<open>buff\<close> has
  \<open>min(len(data[offset:]), maxPayloadLen)\<close> bytes (the source computes the minimum in
  \<^verbatim>\<open>float64\<close>, exact for these sizes) and is a copy of the start of \<open>data[offset:]\<close>.
  The offset advances by \<open>sentBytes\<close>, the count that \<^verbatim>\<open>conn.Write\<close> returned for the
  frame.
\<close>

function sendMetricData_from :: "nat \<Rightarrow> byte list \<Rightarrow> tlsConn \<Rightarrow> 16 word \<Rightarrow> error option \<times> tlsConn" where
  "sendMetricData_from offset data c chan =
     (if offset < length data then
        (case conn_Write c (buildFrame chan
                 (take (min (length (drop offset data)) maxPayloadLen) (drop offset data))) of
           ((sentBytes, Some e), c') \<Rightarrow> (Some (Wrap ''writing metric data'' e), c')
         | ((sentBytes, None), c') \<Rightarrow> sendMetricData_from (offset + sentBytes) data c' chan)
      else (None, c))"
  by pat_completeness auto

lemma length_buildFrame: "length (buildFrame chan data) = length data + 6"
  by (simp add: buildFrame_def PutUint16_def PutUint32_def)

lemma conn_Write_ok_count:
  "conn_Write c b = ((n, None), c') \<Longrightarrow> n = length b"
  by (auto simp: conn_Write_def split: option.splits)

termination sendMetricData_from
proof (relation "measure (\<lambda>(offset, data, c, chan). length data - offset)", goal_cases)
  case 1
  show ?case by simp
next
  case (2 offset data c chan x c' sentBytes err)
  then have "sentBytes = length (buildFrame chan
       (take (min (length (drop offset data)) maxPayloadLen) (drop offset data)))"
    using conn_Write_ok_count by metis
  then have "0 < sentBytes"
    by (simp add: length_buildFrame)
  with 2 show ?case by simp
qed

definition sendMetricData :: "byte list \<Rightarrow> tlsConn \<Rightarrow> 16 word \<Rightarrow> byte list \<Rightarrow> error option \<times> tlsConn" where
  "sendMetricData data c chan request = sendMetricData_from 0 data c chan"

section \<open>Local fetcher\<close>

text \<open>
  What the local agent endpoint does on one dial: the dial fails, or it connects and
  then \<^verbatim>\<open>conn.Write(request)\<close> returns a count and an error and
  \<^verbatim>\<open>ioutil.ReadAll(conn)\<close> returns the data and an error. The endpoint is given as a
  function of the number of earlier fetches of the session and of the request.
\<close>

datatype agent_behaviour =
    AgentDialFails error
  | AgentConnected "nat \<times> error option" "byte list \<times> error option"

type_synonym agent = "nat \<Rightarrow> byte list \<Rightarrow> agent_behaviour"

definition fetchMetricData :: "agent_behaviour \<Rightarrow> byte list \<Rightarrow> error + byte list" where
  "fetchMetricData endpoint request =
     (case endpoint of
        AgentDialFails e \<Rightarrow> Inl (Wrap ''connecting to agent for metrics'' e)
      | AgentConnected (numBytes, werr) (data, rerr) \<Rightarrow>
          (case werr of
             Some e \<Rightarrow> Inl (Wrap ''writing metric request'' e)
           | None \<Rightarrow>
               (case rerr of
                  Some e \<Rightarrow> Inl (Wrap ''reading metric data'' e)
                | None \<Rightarrow> Inr data)))"

section \<open>Session loop\<close>

text \<open>
  The state of \<^verbatim>\<open>reverse\<close>: the connection, the two accumulators, and the requests
  forwarded to the local agent so far.
\<close>

record session =
  conn :: tlsConn
  cmd :: "byte list"
  arg :: "byte list"
  requests :: "byte list list"

text \<open>Why \<^verbatim>\<open>reverse\<close> returned, one constructor per \<^verbatim>\<open>return\<close> of the loop.\<close>

datatype exit_cause =
    ReadingHeader error
  | OversizedFrame "32 word"
  | ReadingMessage error
  | SendingMetricData error

datatype step = Continue session | Exit exit_cause session

text \<open>The session state that an iteration leaves, whether the loop goes on or not.\<close>

fun session_of :: "step \<Rightarrow> session" where
  "session_of (Continue s) = s"
| "session_of (Exit why s) = s"

text \<open>The \<^verbatim>\<open>switch string(cmd)\<close> of the loop body, after \<open>cmd\<close> or \<open>arg\<close> was stored.\<close>

definition dispatch :: "agent \<Rightarrow> header \<Rightarrow> session \<Rightarrow> step" where
  "dispatch ag hdr s =
     (if cmd s = bytes_of ''CONNECT'' then
        (if length (arg s) > 0 then
           (let data = (case fetchMetricData (ag (length (requests s)) (arg s)) (arg s) of
                          Inl e \<Rightarrow> bytes_of ''{}''
                        | Inr d \<Rightarrow> d);
                s1 = s\<lparr>requests := requests s @ [arg s]\<rparr>
            in case sendMetricData data (conn s1) (channelID hdr) (arg s1) of
                 (Some e, c') \<Rightarrow> Exit (SendingMetricData e) (s1\<lparr>conn := c'\<rparr>)
               | (None, c') \<Rightarrow> Continue (s1\<lparr>conn := c', cmd := [], arg := []\<rparr>))
         else Continue s)
      else if cmd s = bytes_of ''CLOSE'' \<or> cmd s = bytes_of ''RESET''
              \<or> cmd s = bytes_of ''SHUTDOWN'' then Continue (s\<lparr>cmd := []\<rparr>)
      else Continue s)"

text \<open>One iteration of the \<^verbatim>\<open>for\<close> loop of \<^verbatim>\<open>reverse\<close>.\<close>

definition reverse_iter :: "agent \<Rightarrow> session \<Rightarrow> step" where
  "reverse_iter ag s =
     (case readHeader (conn s) of
        (Inl e, c1) \<Rightarrow> Exit (ReadingHeader e) (s\<lparr>conn := c1\<rparr>)
      | (Inr hdr, c1) \<Rightarrow>
          if unat (payloadLen hdr) > maxPayloadLen
          then Exit (OversizedFrame (payloadLen hdr)) (s\<lparr>conn := c1\<rparr>)
          else (case readMessage c1 (payloadLen hdr) of
                  (Inl e, c2) \<Rightarrow> Exit (ReadingMessage e) (s\<lparr>conn := c2\<rparr>)
                | (Inr msg, c2) \<Rightarrow>
                    dispatch ag hdr
                      (if isCommand hdr then s\<lparr>conn := c2, cmd := msg\<rparr>
                       else s\<lparr>conn := c2, arg := msg\<rparr>)))"

text \<open>
  The loop ends when \<^verbatim>\<open>reverse\<close> returns. Every iteration starts with one
  \<^verbatim>\<open>Read\<close> on the connection for the header, which takes a block or a part of one
  from the finite \<open>inbound\<close> script, so the script bounds the number of iterations.
\<close>

definition pending :: "tlsConn \<Rightarrow> nat" where
  "pending c = sum_list (map (\<lambda>(bs, e). length bs + 1) (inbound c))"

lemma conn_Read_pending:
  "conn_Read c m = (r, c') \<Longrightarrow> 0 < m \<Longrightarrow> inbound c \<noteq> [] \<Longrightarrow> pending c' < pending c"
  by (auto simp: conn_Read_def pending_def split: list.splits prod.splits if_splits)

lemma conn_Read_pending_le:
  "conn_Read c m = (r, c') \<Longrightarrow> pending c' \<le> pending c"
  by (auto simp: conn_Read_def pending_def split: list.splits prod.splits if_splits)

lemma conn_Read_closed:
  "inbound c = [] \<Longrightarrow> fst (conn_Read c m) = ([], Some EOF)"
  by (simp add: conn_Read_def)

lemma readBytes_pending_le:
  "readBytes c sz = (r, c') \<Longrightarrow> pending c' \<le> pending c"
  by (auto simp: readBytes_def limitReader_Read_def
      split: prod.splits option.splits if_splits dest: conn_Read_pending_le)

lemma readMessage_pending_le:
  "readMessage c sz = (r, c') \<Longrightarrow> pending c' \<le> pending c"
  by (auto simp: readMessage_def split: prod.splits sum.splits if_splits
      dest: readBytes_pending_le)

lemma readBytes_pending:
  assumes "readBytes c sz = (Inr data, c')" and "0 < sz"
  shows "pending c' < pending c"
proof (cases "inbound c = []")
  case True
  then have "fst (conn_Read c sz) = ([], Some EOF)"
    by (rule conn_Read_closed)
  with assms show ?thesis
    by (auto simp: readBytes_def limitReader_Read_def split: prod.splits)
next
  case False
  with assms show ?thesis
    by (auto simp: readBytes_def limitReader_Read_def
        split: prod.splits option.splits if_splits dest: conn_Read_pending)
qed

lemma readHeader_pending:
  assumes "readHeader c = (Inr hdr, c')"
  shows "pending c' < pending c"
proof -
  from assms obtain data where "readBytes c 6 = (Inr data, c')"
    by (auto simp: readHeader_def readMessage_def split: prod.splits sum.splits if_splits)
  then show ?thesis
    by (rule readBytes_pending) simp
qed

lemma conn_Write_inbound:
  "conn_Write c b = (r, c') \<Longrightarrow> inbound c' = inbound c"
  by (auto simp: conn_Write_def split: option.splits)

declare sendMetricData_from.simps [simp del]

lemma sendMetricData_from_inbound:
  "sendMetricData_from offset data c chan = (r, c') \<Longrightarrow> inbound c' = inbound c"
proof (induction offset data c chan arbitrary: r c' rule: sendMetricData_from.induct)
  case (1 offset data c chan)
  show ?case
  proof (cases "offset < length data")
    case False
    with "1.prems" show ?thesis
      by (simp add: sendMetricData_from.simps [of offset])
  next
    case True
    obtain n err c1 where w: "conn_Write c (buildFrame chan
        (take (min (length (drop offset data)) maxPayloadLen) (drop offset data))) = ((n, err), c1)"
      by (metis prod.exhaust)
    then have c1: "inbound c1 = inbound c"
      by (rule conn_Write_inbound)
    show ?thesis
    proof (cases err)
      case None
      with True w "1.prems" have "sendMetricData_from (offset + n) data c1 chan = (r, c')"
        by (simp add: sendMetricData_from.simps [of offset])
      then have "inbound c' = inbound c1"
        by (rule "1.IH" [OF True w [symmetric] refl None])
      with c1 show ?thesis by simp
    next
      case (Some e)
      with True w "1.prems" c1 show ?thesis
        by (auto simp: sendMetricData_from.simps [of offset])
    qed
  qed
qed

lemma dispatch_pending:
  assumes "dispatch ag hdr s = Continue s'"
  shows "pending (conn s') = pending (conn s)"
proof (cases "cmd s = bytes_of ''CONNECT'' \<and> length (arg s) > 0")
  case False
  with assms show ?thesis
    by (auto simp: dispatch_def split: if_splits)
next
  case True
  define data where "data = (case fetchMetricData (ag (length (requests s)) (arg s)) (arg s) of
                          Inl e \<Rightarrow> bytes_of ''{}'' | Inr d \<Rightarrow> d)"
  obtain r c' where snd: "sendMetricData data (conn s) (channelID hdr) (arg s) = (r, c')"
    by (metis prod.exhaust)
  then have "inbound c' = inbound (conn s)"
    unfolding sendMetricData_def by (rule sendMetricData_from_inbound)
  moreover from assms True snd have "conn s' = c'"
    by (cases r) (auto simp: dispatch_def Let_def data_def)
  ultimately show ?thesis
    by (simp add: pending_def)
qed

lemma reverse_iter_pending:
  assumes "reverse_iter ag s = Continue s'"
  shows "pending (conn s') < pending (conn s)"
proof -
  from assms obtain hdr c1 msg c2 s1 where
    h: "readHeader (conn s) = (Inr hdr, c1)" and
    m: "readMessage c1 (payloadLen hdr) = (Inr msg, c2)" and
    d: "dispatch ag hdr s1 = Continue s'" and
    s1: "conn s1 = c2"
    by (auto simp: reverse_iter_def split: prod.splits sum.splits if_splits)
  from h have "pending c1 < pending (conn s)" by (rule readHeader_pending)
  moreover from m have "pending c2 \<le> pending c1" by (rule readMessage_pending_le)
  moreover from d s1 have "pending (conn s') = pending c2" by (simp add: dispatch_pending)
  ultimately show ?thesis by simp
qed

function reverse_loop :: "agent \<Rightarrow> session \<Rightarrow> exit_cause \<times> session" where
  "reverse_loop ag s =
     (case reverse_iter ag s of
        Exit why s' \<Rightarrow> (why, s')
      | Continue s' \<Rightarrow> reverse_loop ag s')"
  by pat_completeness auto

termination reverse_loop
proof (relation "measure (\<lambda>(ag, s). pending (conn s))", goal_cases)
  case 1
  show ?case by simp
next
  case (2 ag s s')
  then have "pending (conn s') < pending (conn s)"
    by (rule reverse_iter_pending)
  then show ?case by simp
qed

declare reverse_loop.simps [simp del]


section \<open>Supervisor\<close>

text \<open>
  The parts of the parsed reverse URL that \<^verbatim>\<open>connect\<close> uses.
\<close>

record url =
  host :: string
  path :: string
  fragment :: string
















section \<open>Example connections\<close>

text \<open>
  A fresh connection that will deliver the given blocks and on which every write
  succeeds; a local agent that refuses every dial; a local agent that answers every
  request with the same body.
\<close>

definition quiet_conn :: "(byte list \<times> error option) list \<Rightarrow> tlsConn" where
  "quiet_conn blocks = \<lparr>inbound = blocks, wfail = (\<lambda>k. None), rlog = [], written = []\<rparr>"

text \<open>A frame as the broker sends a command: the high bit of the first word is set.\<close>

definition command_frame :: "16 word \<Rightarrow> byte list \<Rightarrow> byte list" where
  "command_frame chan data =
     PutUint16 (chan OR 0x8000) @ PutUint32 (of_nat (length data)) @ data"

definition no_agent :: agent where
  "no_agent = (\<lambda>k request. AgentDialFails (NetError ''connection refused''))"

definition const_agent :: "byte list \<Rightarrow> agent" where
  "const_agent body = (\<lambda>k request. AgentConnected (length request, None) (body, None))"

section \<open>Properties of the frame codec\<close>

lemma Uint16_PutUint16: "Uint16 (PutUint16 v @ xs) = v"
proof (rule bit_word_eqI)
  fix n assume "n < LENGTH(16)"
  then have n16: "n < 16" by simp
  consider "n < 8" | "8 \<le> n" by linarith
  then show "bit (Uint16 (PutUint16 v @ xs)) n = bit v n"
    using n16 by cases (auto simp: Uint16_def PutUint16_def bit_simps)
qed

lemma Uint32_PutUint32: "Uint32 (PutUint32 v @ xs) = v"
proof (rule bit_word_eqI)
  fix n assume "n < LENGTH(32)"
  then have n32: "n < 32" by simp
  consider "n < 8" | "8 \<le> n" "n < 16" | "16 \<le> n" "n < 24" | "24 \<le> n" by linarith
  then show "bit (Uint32 (PutUint32 v @ xs)) n = bit v n"
    using n32 by cases (auto simp: Uint32_def PutUint32_def bit_simps)
qed

lemma drop2_PutUint16: "drop 2 (PutUint16 v @ xs) = xs"
  by (simp add: PutUint16_def)

lemma decodeHeader_buildFrame:
  "decodeHeader (take 6 (buildFrame chan p)) =
     Inr \<lparr>channelID = chan AND 0x7fff, isCommand = False, payloadLen = of_nat (length p)\<rparr>"
proof -
  have "take 6 (buildFrame chan p) = PutUint16 (chan AND 0x7fff) @ PutUint32 (of_nat (length p))"
    by (simp add: buildFrame_def PutUint16_def PutUint32_def)
  then have u16: "Uint16 (take 6 (buildFrame chan p)) = chan AND 0x7fff"
    by (simp only: Uint16_PutUint16)
  have "drop 2 (take 6 (buildFrame chan p)) = PutUint32 (of_nat (length p)) @ []"
    by (simp add: buildFrame_def PutUint16_def PutUint32_def)
  then have u32: "Uint32 (drop 2 (take 6 (buildFrame chan p))) = of_nat (length p)"
    by (simp only: Uint32_PutUint32)
  have m: "(chan AND 0x7fff) AND 0x7fff = chan AND 0x7fff"
    by (simp add: and.assoc)
  have h: "\<not> 0 < (chan AND 0x7fff) AND 0x8000"
    by (simp add: and.assoc)
  have l: "\<not> length (take 6 (buildFrame chan p)) < 6"
    by (simp add: length_buildFrame)
  show ?thesis
    unfolding decodeHeader_def Let_def u16 u32 m
    using l h by simp
qed

lemma readBytes_block:
  assumes "inbound c = (bs, e) # rest" and "0 < sz" and "sz \<le> length bs"
  shows "fst (readBytes c sz) = Inr (take sz bs)"
  using assms
  by (auto simp: readBytes_def limitReader_Read_def conn_Read_def split: option.splits)

lemma readHeader_block:
  assumes "inbound c = (bs, e) # rest" and "6 \<le> length bs"
  shows "fst (readHeader c) = decodeHeader (take 6 bs)"
proof -
  from assms have "fst (readBytes c 6) = Inr (take 6 bs)"
    by (intro readBytes_block) auto
  with assms(2) show ?thesis
    by (auto simp: readHeader_def readMessage_def split: prod.splits sum.splits)
qed

lemma low15: "(chan :: 16 word) < 32768 \<Longrightarrow> chan AND 0x7fff = chan"
proof -
  assume "chan < 32768"
  then have "chan < 2 ^ 15" by simp
  then have "chan AND mask 15 = chan" by (rule less_mask_eq)
  then show ?thesis by (simp add: mask_eq_exp_minus_1)
qed

text \<open>
  Claim C3. For every channel id below 32768 and every payload of at most 65529 bytes,
  reading the header of the frame that \<^verbatim>\<open>buildFrame\<close> made (the frame being what the
  connection delivers next) gives the same channel id, a clear command flag and the
  length of the payload, and the frame from byte 6 on is the payload. For every channel
  id whatsoever, the high bit of the first 16-bit word of a built frame is clear.
\<close>

theorem buildFrame_readHeader_roundtrip:
  assumes "chan < 32768" and "length payload \<le> 65529"
    and "inbound c = (buildFrame chan payload @ buffered, e) # rest"
  shows "fst (readHeader c) =
           Inr \<lparr>channelID = chan, isCommand = False, payloadLen = of_nat (length payload)\<rparr>
       \<and> unat (of_nat (length payload) :: 32 word) = length payload
       \<and> drop 6 (buildFrame chan payload) = payload
       \<and> Uint16 (buildFrame chan' payload') AND 0x8000 = 0"
proof -
  have "fst (readHeader c) = decodeHeader (take 6 (buildFrame chan payload @ buffered))"
    using assms(3) by (rule readHeader_block) (simp add: length_buildFrame)
  also have "take 6 (buildFrame chan payload @ buffered) = take 6 (buildFrame chan payload)"
    by (simp add: length_buildFrame)
  finally have "fst (readHeader c) =
      Inr \<lparr>channelID = chan, isCommand = False, payloadLen = of_nat (length payload)\<rparr>"
    using assms(1) by (simp add: decodeHeader_buildFrame low15)
  moreover from assms(2) have "unat (of_nat (length payload) :: 32 word) = length payload"
    by (simp add: unat_of_nat)
  moreover have "drop 6 (buildFrame chan payload) = payload"
    by (simp add: buildFrame_def PutUint16_def PutUint32_def)
  moreover have "Uint16 (buildFrame chan' payload') AND 0x8000 = 0"
    by (simp add: buildFrame_def Uint16_PutUint16 and.assoc)
  ultimately show ?thesis by simp
qed

theorem buildFrame_readHeader_roundtrip_witness:
  "(7 :: 16 word) < 32768 \<and> length (bytes_of ''{}'') \<le> 65529
   \<and> fst (readHeader (quiet_conn [(buildFrame 7 (bytes_of ''{}'') @ [], None)])) =
           Inr \<lparr>channelID = 7, isCommand = False, payloadLen = 2\<rparr>
   \<and> drop 6 (buildFrame 7 (bytes_of ''{}'')) = bytes_of ''{}''
   \<and> Uint16 (buildFrame 0xffff []) AND 0x8000 = 0"
  using buildFrame_readHeader_roundtrip [of 7 "bytes_of ''{}''"
      "quiet_conn [(buildFrame 7 (bytes_of ''{}'') @ [], None)]" "[]" None "[]" "0xffff" "[]"]
  by (simp add: bytes_of_def quiet_conn_def)

section \<open>Properties of the connection reads\<close>

lemma readMessage_zero: "readMessage c 0 = (Inl EOF, c)"
  by (simp add: readMessage_def readBytes_def limitReader_Read_def)

lemma conn_Read_logs:
  "conn_Read c m = (r, c') \<Longrightarrow>
     rlog c' = rlog c @ [m] \<and> written c' = written c \<and> wfail c' = wfail c"
  by (auto simp: conn_Read_def split: list.splits prod.splits if_splits)

lemma readBytes_logs:
  assumes "readBytes c sz = (r, c')" and "0 < sz"
  shows "rlog c' = rlog c @ [sz] \<and> written c' = written c \<and> wfail c' = wfail c"
proof -
  obtain g c1 where cr: "conn_Read c sz = (g, c1)"
    by (metis prod.exhaust)
  with assms have "c' = c1"
    by (auto simp: readBytes_def limitReader_Read_def split: prod.splits option.splits if_splits)
  with cr show ?thesis
    by (simp add: conn_Read_logs)
qed

lemma readMessage_logs:
  assumes "readMessage c sz = (r, c')" and "0 < unat sz"
  shows "rlog c' = rlog c @ [unat sz] \<and> written c' = written c \<and> wfail c' = wfail c"
proof -
  obtain r1 where "readBytes c (unat sz) = (r1, c')"
    using assms(1) by (auto simp: readMessage_def split: prod.splits sum.splits if_splits)
  then show ?thesis
    using assms(2) by (rule readBytes_logs)
qed

lemma readHeader_logs:
  assumes "readHeader c = (r, c')"
  shows "rlog c' = rlog c @ [6] \<and> written c' = written c \<and> wfail c' = wfail c"
proof -
  obtain r1 where "readMessage c 6 = (r1, c')"
    using assms by (auto simp: readHeader_def split: prod.splits sum.splits)
  then have "rlog c' = rlog c @ [unat (6 :: 32 word)] \<and> written c' = written c \<and> wfail c' = wfail c"
    by (rule readMessage_logs) simp
  then show ?thesis by simp
qed

text \<open>
  Claim C2. The exact read is to return the bytes read from the connection or to fail
  with a short-read error. Here the connection delivers three bytes, with no error, to
  a read of six: \<^verbatim>\<open>readMessage\<close> succeeds and returns six bytes, the three that were
  read followed by three zero bytes of the buffer that no read filled. The test
  \<open>uint32(len(data)) != size\<close> compares the length of the buffer, which is always
  \<open>size\<close>, and not the count \<open>n\<close> of bytes read.
\<close>

theorem readMessage_short_read_padded:
  "readMessage (quiet_conn [([1, 2, 3], None)]) 6
     = (Inr [1, 2, 3, 0, 0, 0], (quiet_conn []) \<lparr>rlog := [6]\<rparr>)
   \<and> fst (conn_Read (quiet_conn [([1, 2, 3], None)]) 6) = ([1, 2, 3], None)"
proof -
  have r: "replicate 3 (0 :: byte) = [0, 0, 0]"
    by (simp add: numeral_3_eq_3)
  show ?thesis
    by (simp add: readMessage_def readBytes_def limitReader_Read_def conn_Read_def
        quiet_conn_def r)
qed

text \<open>
  Claim C10. When the header of a frame declares a payload length of 0, the payload
  read \<^verbatim>\<open>readMessage(conn, 0)\<close> returns the error \<^verbatim>\<open>io.EOF\<close> of the limited reader
  without touching the connection, and the session loop exits on it.
\<close>

theorem empty_payload_exits:
  assumes "readHeader (conn s) = (Inr hdr, c1)" and "payloadLen hdr = 0"
  shows "readMessage c1 (payloadLen hdr) = (Inl EOF, c1)
       \<and> reverse_iter ag s = Exit (ReadingMessage EOF) (s\<lparr>conn := c1\<rparr>)
       \<and> reverse_loop ag s = (ReadingMessage EOF, s\<lparr>conn := c1\<rparr>)"
proof -
  have m: "readMessage c1 (payloadLen hdr) = (Inl EOF, c1)"
    using assms(2) by (simp add: readMessage_zero)
  have "\<not> unat (payloadLen hdr) > maxPayloadLen"
    using assms(2) by simp
  with assms(1) m have i: "reverse_iter ag s = Exit (ReadingMessage EOF) (s\<lparr>conn := c1\<rparr>)"
    by (simp add: reverse_iter_def)
  then have "reverse_loop ag s = (ReadingMessage EOF, s\<lparr>conn := c1\<rparr>)"
    by (simp add: reverse_loop.simps [of ag s])
  with m i show ?thesis by simp
qed

text \<open>
  Claim C5. When the decoded header declares a payload length above 65529, the
  iteration exits at once and so does the session loop; the only read made on the
  connection in that iteration is the six-byte read of the header.
\<close>

theorem oversized_frame_exits:
  assumes "readHeader (conn s) = (Inr hdr, c1)" and "unat (payloadLen hdr) > 65529"
  shows "reverse_iter ag s = Exit (OversizedFrame (payloadLen hdr)) (s\<lparr>conn := c1\<rparr>)
       \<and> reverse_loop ag s = (OversizedFrame (payloadLen hdr), s\<lparr>conn := c1\<rparr>)
       \<and> rlog c1 = rlog (conn s) @ [6]"
proof -
  from assms have i: "reverse_iter ag s = Exit (OversizedFrame (payloadLen hdr)) (s\<lparr>conn := c1\<rparr>)"
    by (simp add: reverse_iter_def maxPayloadLen_def)
  then have "reverse_loop ag s = (OversizedFrame (payloadLen hdr), s\<lparr>conn := c1\<rparr>)"
    by (simp add: reverse_loop.simps [of ag s])
  moreover from assms(1) have "rlog c1 = rlog (conn s) @ [6]"
    by (simp add: readHeader_logs)
  ultimately show ?thesis using i by simp
qed

lemma readHeader_oversized_example:
  "readHeader (quiet_conn [([0x80, 0x07, 0, 0, 0xFF, 0xFA], None), (replicate 65530 0x41, None)])
     = (Inr \<lparr>channelID = 7, isCommand = True, payloadLen = 65530\<rparr>,
        (quiet_conn [(replicate 65530 0x41, None)]) \<lparr>rlog := [6]\<rparr>)"
  by (simp add: readHeader_def readMessage_def readBytes_def limitReader_Read_def conn_Read_def
      decodeHeader_def Uint16_def Uint32_def quiet_conn_def)

lemma readHeader_empty_payload_example:
  "readHeader (quiet_conn [(buildFrame 7 [], None)])
     = (Inr \<lparr>channelID = 7, isCommand = False, payloadLen = 0\<rparr>, (quiet_conn []) \<lparr>rlog := [6]\<rparr>)"
  by (simp add: readHeader_def readMessage_def readBytes_def limitReader_Read_def conn_Read_def
      decodeHeader_def Uint16_def Uint32_def buildFrame_def PutUint16_def PutUint32_def
      quiet_conn_def)

theorem empty_payload_exits_witness:
  "readHeader (conn \<lparr>conn = quiet_conn [(buildFrame 7 [], None)], cmd = [], arg = [], requests = []\<rparr>)
     = (Inr \<lparr>channelID = 7, isCommand = False, payloadLen = 0\<rparr>, (quiet_conn []) \<lparr>rlog := [6]\<rparr>)
   \<and> payloadLen \<lparr>channelID = 7, isCommand = False, payloadLen = 0\<rparr> = 0
   \<and> reverse_loop no_agent
        \<lparr>conn = quiet_conn [(buildFrame 7 [], None)], cmd = [], arg = [], requests = []\<rparr>
     = (ReadingMessage EOF,
        \<lparr>conn = (quiet_conn []) \<lparr>rlog := [6]\<rparr>, cmd = [], arg = [], requests = []\<rparr>)"
  using empty_payload_exits [of
      "\<lparr>conn = quiet_conn [(buildFrame 7 [], None)], cmd = [], arg = [], requests = []\<rparr>"
      "\<lparr>channelID = 7, isCommand = False, payloadLen = 0\<rparr>"
      "(quiet_conn []) \<lparr>rlog := [6]\<rparr>" no_agent]
  by (simp add: readHeader_empty_payload_example)

theorem oversized_frame_exits_witness:
  "readHeader (conn \<lparr>conn = quiet_conn [([0x80, 0x07, 0, 0, 0xFF, 0xFA], None),
                                         (replicate 65530 0x41, None)],
                     cmd = [], arg = [], requests = []\<rparr>)
     = (Inr \<lparr>channelID = 7, isCommand = True, payloadLen = 65530\<rparr>,
        (quiet_conn [(replicate 65530 0x41, None)]) \<lparr>rlog := [6]\<rparr>)
   \<and> unat (payloadLen \<lparr>channelID = 7, isCommand = True, payloadLen = 65530\<rparr>) > 65529
   \<and> reverse_loop no_agent
        \<lparr>conn = quiet_conn [([0x80, 0x07, 0, 0, 0xFF, 0xFA], None), (replicate 65530 0x41, None)],
         cmd = [], arg = [], requests = []\<rparr>
     = (OversizedFrame 65530,
        \<lparr>conn = (quiet_conn [(replicate 65530 0x41, None)]) \<lparr>rlog := [6]\<rparr>,
         cmd = [], arg = [], requests = []\<rparr>)"
  using oversized_frame_exits [of
      "\<lparr>conn = quiet_conn [([0x80, 0x07, 0, 0, 0xFF, 0xFA], None), (replicate 65530 0x41, None)],
        cmd = [], arg = [], requests = []\<rparr>"
      "\<lparr>channelID = 7, isCommand = True, payloadLen = 65530\<rparr>"
      "(quiet_conn [(replicate 65530 0x41, None)]) \<lparr>rlog := [6]\<rparr>" no_agent]
  by (simp add: readHeader_oversized_example)

section \<open>Properties of the chunked send and of the session loop\<close>

lemma sendMetricData_empty: "sendMetricData [] c chan req = (None, c)"
  by (simp add: sendMetricData_def sendMetricData_from.simps [of 0])

lemma sendMetricData_one_frame:
  assumes "data \<noteq> []" and "length data \<le> maxPayloadLen + 6"
    and "wfail c (length (written c)) = None"
  shows "sendMetricData data c chan req =
           (None, c\<lparr>written := written c @ [buildFrame chan (take maxPayloadLen data)]\<rparr>)"
proof -
  have b: "take (min (length (drop 0 data)) maxPayloadLen) (drop 0 data) = take maxPayloadLen data"
    by (simp add: min_def)
  have w: "conn_Write c (buildFrame chan (take maxPayloadLen data)) =
      ((length (take maxPayloadLen data) + 6, None),
       c\<lparr>written := written c @ [buildFrame chan (take maxPayloadLen data)]\<rparr>)"
    using assms(3) by (simp add: conn_Write_def length_buildFrame)
  have fin: "\<not> 0 + (length (take maxPayloadLen data) + 6) < length data"
    using assms(2) by (simp add: min_def)
  have "sendMetricData_from 0 data c chan =
      sendMetricData_from (0 + (length (take maxPayloadLen data) + 6)) data
        (c\<lparr>written := written c @ [buildFrame chan (take maxPayloadLen data)]\<rparr>) chan"
    using assms(1) by (subst sendMetricData_from.simps) (simp only: b w, simp)
  also have "\<dots> = (None, c\<lparr>written := written c @ [buildFrame chan (take maxPayloadLen data)]\<rparr>)"
    using fin by (subst sendMetricData_from.simps) simp
  finally show ?thesis
    by (simp add: sendMetricData_def)
qed

lemma drop6_buildFrame: "drop 6 (buildFrame chan data) = data"
  by (simp add: buildFrame_def PutUint16_def PutUint32_def)

text \<open>
  Claim C1. The chunked send is to write \<open>ceil(len(data) / 65529)\<close> frames whose
  payloads concatenate to \<open>data\<close>, so two frames (65529 + 1 bytes) for a body of 65530
  bytes. On a connection where every write succeeds, \<^verbatim>\<open>sendMetricData\<close> with a body of
  65530 bytes writes one frame, with the first 65529 bytes, and returns without error:
  the offset advances by \<open>sentBytes\<close>, the length of the whole frame with its six
  header bytes, to 65535, which ends the loop. The last byte is never sent.
\<close>

theorem sendMetricData_65530_one_frame:
  "sendMetricData (replicate 65530 0x41) (quiet_conn []) 3 (bytes_of ''GET /'')
     = (None, (quiet_conn []) \<lparr>written := [buildFrame 3 (replicate 65529 0x41)]\<rparr>)
   \<and> concat (map (drop 6) [buildFrame 3 (replicate 65529 0x41)]) = replicate 65529 0x41
   \<and> length (replicate 65529 (0x41 :: byte)) < length (replicate 65530 (0x41 :: byte))"
proof -
  have "sendMetricData (replicate 65530 0x41) (quiet_conn []) 3 (bytes_of ''GET /'')
     = (None, (quiet_conn []) \<lparr>written := written (quiet_conn [])
           @ [buildFrame 3 (take maxPayloadLen (replicate 65530 0x41))]\<rparr>)"
    by (rule sendMetricData_one_frame) (simp_all add: maxPayloadLen_def quiet_conn_def)
  moreover have "take maxPayloadLen (replicate 65530 (0x41 :: byte)) = replicate 65529 0x41"
    by (simp add: maxPayloadLen_def)
  moreover have "written (quiet_conn []) = []"
    by (simp add: quiet_conn_def)
  ultimately show ?thesis
    by (simp add: drop6_buildFrame)
qed

lemma reverse_iter_frame:
  assumes "readHeader (conn s) = (Inr hdr, c1)" and "unat (payloadLen hdr) \<le> 65529"
    and "readMessage c1 (payloadLen hdr) = (Inr msg, c2)"
  shows "reverse_iter ag s =
           dispatch ag hdr (if isCommand hdr then s\<lparr>conn := c2, cmd := msg\<rparr>
                            else s\<lparr>conn := c2, arg := msg\<rparr>)"
  using assms by (simp add: reverse_iter_def maxPayloadLen_def)

lemma fetchMetricData_fails:
  "fetchMetricData (AgentDialFails x) req = Inl (Wrap ''connecting to agent for metrics'' x)"
  "fetchMetricData (AgentConnected (n, Some y) rd) req = Inl (Wrap ''writing metric request'' y)"
  "fetchMetricData (AgentConnected (n, None) (d, Some z)) req = Inl (Wrap ''reading metric data'' z)"
  by (simp_all add: fetchMetricData_def split: prod.splits)

lemma braces_small: "bytes_of ''{}'' \<noteq> []" "length (bytes_of ''{}'') \<le> maxPayloadLen + 6"
  "take maxPayloadLen (bytes_of ''{}'') = bytes_of ''{}''"
  by (simp_all add: bytes_of_def maxPayloadLen_def)

lemma dispatch_fetch_failure:
  assumes "cmd s = bytes_of ''CONNECT''" and "arg s \<noteq> []"
    and "fetchMetricData (ag (length (requests s)) (arg s)) (arg s) = Inl e"
    and "wfail (conn s) (length (written (conn s))) = None"
  shows "dispatch ag hdr s =
           Continue (s\<lparr>conn := (conn s)\<lparr>written := written (conn s)
                                    @ [buildFrame (channelID hdr) (bytes_of ''{}'')]\<rparr>,
                       cmd := [], arg := [], requests := requests s @ [arg s]\<rparr>)"
proof -
  have "sendMetricData (bytes_of ''{}'') (conn s) (channelID hdr) (arg s) =
      (None, (conn s)\<lparr>written := written (conn s)
                 @ [buildFrame (channelID hdr) (take maxPayloadLen (bytes_of ''{}''))]\<rparr>)"
    using braces_small(1,2) assms(4) by (rule sendMetricData_one_frame)
  with assms(1-3) show ?thesis
    by (simp add: dispatch_def braces_small(3))
qed


text \<open>
  Claim C4. In an iteration that dispatches \<^verbatim>\<open>CONNECT\<close> (after the frame of the
  iteration was stored, \<open>cmd\<close> is \<^verbatim>\<open>CONNECT\<close> and \<open>arg\<close> is not empty), a failure of the
  local fetcher (the dial fails, the write of the request fails, or reading the
  response fails) does not end the loop: the iteration goes exactly as if the local
  agent had answered with the two bytes \<open>{}\<close>, and when the write to the broker
  succeeds the session writes exactly one frame, on the channel of the frame of this
  iteration, with the two-byte payload \<open>{}\<close>, clears both accumulators and continues.
\<close>

theorem fetch_failure_absorbed:
  assumes "readHeader (conn s) = (Inr hdr, c1)" and "unat (payloadLen hdr) \<le> 65529"
    and "readMessage c1 (payloadLen hdr) = (Inr msg, c2)"
    and "s1 = (if isCommand hdr then s\<lparr>conn := c2, cmd := msg\<rparr> else s\<lparr>conn := c2, arg := msg\<rparr>)"
    and "cmd s1 = bytes_of ''CONNECT''" and "arg s1 \<noteq> []"
    and "ag (length (requests s)) (arg s1) = AgentDialFails x
       \<or> ag (length (requests s)) (arg s1) = AgentConnected (n, Some y) rd
       \<or> ag (length (requests s)) (arg s1) = AgentConnected (n, None) (d, Some z)"
  shows "reverse_iter ag s = reverse_iter (const_agent (bytes_of ''{}'')) s
       \<and> (wfail c2 (length (written c2)) = None \<longrightarrow>
            reverse_iter ag s =
              Continue (s1\<lparr>conn := c2\<lparr>written := written c2
                                       @ [buildFrame (channelID hdr) (bytes_of ''{}'')]\<rparr>,
                           cmd := [], arg := [], requests := requests s @ [arg s1]\<rparr>))"
proof -
  have c: "conn s1 = c2" and r: "requests s1 = requests s"
    using assms(4) by simp_all
  from assms(7) obtain e where
    f: "fetchMetricData (ag (length (requests s)) (arg s1)) (arg s1) = Inl e"
    by (auto simp: fetchMetricData_fails)
  have i: "reverse_iter ag s = dispatch ag hdr s1" for ag
    using assms(1-3) unfolding assms(4) by (rule reverse_iter_frame)
  have "dispatch ag hdr s1 = dispatch (const_agent (bytes_of ''{}'')) hdr s1"
    using assms(5,6) f r
    by (simp add: dispatch_def const_agent_def fetchMetricData_def)
  then have same: "reverse_iter ag s = reverse_iter (const_agent (bytes_of ''{}'')) s"
    by (simp add: i)
  have "reverse_iter ag s =
      Continue (s1\<lparr>conn := c2\<lparr>written := written c2
                               @ [buildFrame (channelID hdr) (bytes_of ''{}'')]\<rparr>,
                   cmd := [], arg := [], requests := requests s @ [arg s1]\<rparr>)"
    if w: "wfail c2 (length (written c2)) = None"
  proof -
    from assms(5,6) f w c r have "dispatch ag hdr s1 =
        Continue (s1\<lparr>conn := (conn s1)\<lparr>written := written (conn s1)
                                      @ [buildFrame (channelID hdr) (bytes_of ''{}'')]\<rparr>,
                     cmd := [], arg := [], requests := requests s1 @ [arg s1]\<rparr>)"
      by (intro dispatch_fetch_failure) simp_all
    then show ?thesis
      using c r by (simp add: i)
  qed
  with same show ?thesis by simp
qed

lemma S3_header:
  "readHeader (quiet_conn [(buildFrame 11 (bytes_of ''GET /''), None)])
     = (Inr \<lparr>channelID = 11, isCommand = False, payloadLen = 5\<rparr>,
        (quiet_conn [(bytes_of ''GET /'', None)]) \<lparr>rlog := [6]\<rparr>)"
  by (simp add: readHeader_def readMessage_def readBytes_def limitReader_Read_def conn_Read_def
      decodeHeader_def Uint16_def Uint32_def buildFrame_def PutUint16_def PutUint32_def
      quiet_conn_def bytes_of_def)

lemma S3_message:
  "readMessage ((quiet_conn [(bytes_of ''GET /'', None)]) \<lparr>rlog := [6]\<rparr>) 5
     = (Inr (bytes_of ''GET /''), (quiet_conn []) \<lparr>rlog := [6, 5]\<rparr>)"
  by (simp add: readMessage_def readBytes_def limitReader_Read_def conn_Read_def
      quiet_conn_def bytes_of_def)

theorem fetch_failure_absorbed_witness:
  "readHeader (conn \<lparr>conn = quiet_conn [(buildFrame 11 (bytes_of ''GET /''), None)],
                     cmd = bytes_of ''CONNECT'', arg = [], requests = []\<rparr>)
     = (Inr \<lparr>channelID = 11, isCommand = False, payloadLen = 5\<rparr>,
        (quiet_conn [(bytes_of ''GET /'', None)]) \<lparr>rlog := [6]\<rparr>)
   \<and> unat (payloadLen \<lparr>channelID = 11, isCommand = False, payloadLen = 5\<rparr>) \<le> 65529
   \<and> readMessage ((quiet_conn [(bytes_of ''GET /'', None)]) \<lparr>rlog := [6]\<rparr>) 5
     = (Inr (bytes_of ''GET /''), (quiet_conn []) \<lparr>rlog := [6, 5]\<rparr>)
   \<and> bytes_of ''GET /'' \<noteq> []
   \<and> no_agent 0 (bytes_of ''GET /'') = AgentDialFails (NetError ''connection refused'')
   \<and> wfail ((quiet_conn []) \<lparr>rlog := [6, 5]\<rparr>) 0 = None
   \<and> reverse_iter no_agent
        \<lparr>conn = quiet_conn [(buildFrame 11 (bytes_of ''GET /''), None)],
         cmd = bytes_of ''CONNECT'', arg = [], requests = []\<rparr>
     = Continue \<lparr>conn = (quiet_conn []) \<lparr>rlog := [6, 5],
                                         written := [buildFrame 11 (bytes_of ''{}'')]\<rparr>,
                 cmd = [], arg = [], requests = [bytes_of ''GET /'']\<rparr>"
  using fetch_failure_absorbed [of
      "\<lparr>conn = quiet_conn [(buildFrame 11 (bytes_of ''GET /''), None)],
        cmd = bytes_of ''CONNECT'', arg = [], requests = []\<rparr>"
      "\<lparr>channelID = 11, isCommand = False, payloadLen = 5\<rparr>"
      "(quiet_conn [(bytes_of ''GET /'', None)]) \<lparr>rlog := [6]\<rparr>"
      "bytes_of ''GET /''"
      "(quiet_conn []) \<lparr>rlog := [6, 5]\<rparr>"
      "\<lparr>conn = (quiet_conn []) \<lparr>rlog := [6, 5]\<rparr>,
        cmd = bytes_of ''CONNECT'', arg = bytes_of ''GET /'', requests = []\<rparr>"
      no_agent "NetError ''connection refused''", THEN conjunct2]
  by (simp add: S3_header S3_message) (simp add: no_agent_def quiet_conn_def bytes_of_def)

lemma dispatch_unknown:
  assumes "cmd s \<notin> {bytes_of ''CONNECT'', bytes_of ''CLOSE'', bytes_of ''RESET'', bytes_of ''SHUTDOWN''}"
  shows "dispatch ag hdr s = Continue s"
  using assms by (simp add: dispatch_def)

lemma reverse_iter_unknown:
  assumes "readHeader (conn s) = (Inr hdr, c1)" and "unat (payloadLen hdr) \<le> 65529"
    and "readMessage c1 (payloadLen hdr) = (Inr msg, c2)"
    and "s1 = (if isCommand hdr then s\<lparr>conn := c2, cmd := msg\<rparr> else s\<lparr>conn := c2, arg := msg\<rparr>)"
    and "cmd s1 \<notin> {bytes_of ''CONNECT'', bytes_of ''CLOSE'', bytes_of ''RESET'', bytes_of ''SHUTDOWN''}"
  shows "reverse_iter ag s = Continue s1"
proof -
  have "reverse_iter ag s = dispatch ag hdr s1"
    using assms(1-3) unfolding assms(4) by (rule reverse_iter_frame)
  also have "\<dots> = Continue s1"
    using assms(5) by (rule dispatch_unknown)
  finally show ?thesis .
qed

lemma readMessage_written:
  assumes "readMessage c sz = (r, c')"
  shows "written c' = written c"
proof (cases "unat sz = 0")
  case True
  then have "sz = 0" by (simp add: unat_eq_0)
  with assms show ?thesis by (simp add: readMessage_zero)
next
  case False
  with assms show ?thesis by (simp add: readMessage_logs)
qed

text \<open>
  Claim C8, as amended. When the broker sends an unknown command frame (a command that
  is none of \<^verbatim>\<open>CONNECT\<close>, \<^verbatim>\<open>CLOSE\<close>, \<^verbatim>\<open>RESET\<close>, \<^verbatim>\<open>SHUTDOWN\<close>) followed by an
  argument frame, the session does not exit on either frame and writes nothing to the
  broker; the accumulators are not cleared: after the argument frame \<open>cmd\<close> still holds
  the unknown command and \<open>arg\<close> holds the payload of the argument frame.
\<close>

theorem unknown_command_keeps_accumulators:
  assumes "readHeader (conn s) = (Inr h1, c1)" and "isCommand h1"
    and "unat (payloadLen h1) \<le> 65529"
    and "readMessage c1 (payloadLen h1) = (Inr name, c2)"
    and "name \<notin> {bytes_of ''CONNECT'', bytes_of ''CLOSE'', bytes_of ''RESET'', bytes_of ''SHUTDOWN''}"
    and "readHeader c2 = (Inr h2, c3)" and "\<not> isCommand h2"
    and "unat (payloadLen h2) \<le> 65529"
    and "readMessage c3 (payloadLen h2) = (Inr a, c4)"
  shows "reverse_iter ag s = Continue (s\<lparr>conn := c2, cmd := name\<rparr>)
       \<and> reverse_iter ag (s\<lparr>conn := c2, cmd := name\<rparr>)
           = Continue (s\<lparr>conn := c4, cmd := name, arg := a\<rparr>)
       \<and> written c4 = written (conn s)"
proof -
  have one: "reverse_iter ag s = Continue (s\<lparr>conn := c2, cmd := name\<rparr>)"
    using assms(1,3,4) by (rule reverse_iter_unknown) (use assms(2,5) in simp_all)
  have two: "reverse_iter ag (s\<lparr>conn := c2, cmd := name\<rparr>)
      = Continue (s\<lparr>conn := c4, cmd := name, arg := a\<rparr>)"
  proof (rule reverse_iter_unknown [where hdr = h2 and ?c1.0 = c3 and msg = a and ?c2.0 = c4])
    show "readHeader (conn (s\<lparr>conn := c2, cmd := name\<rparr>)) = (Inr h2, c3)"
      using assms(6) by simp
    show "unat (payloadLen h2) \<le> 65529" by (rule assms(8))
    show "readMessage c3 (payloadLen h2) = (Inr a, c4)" by (rule assms(9))
    show "s\<lparr>conn := c4, cmd := name, arg := a\<rparr> =
        (if isCommand h2 then s\<lparr>conn := c2, cmd := name\<rparr>\<lparr>conn := c4, cmd := a\<rparr>
         else s\<lparr>conn := c2, cmd := name\<rparr>\<lparr>conn := c4, arg := a\<rparr>)"
      using assms(7) by simp
    show "cmd (s\<lparr>conn := c4, cmd := name, arg := a\<rparr>)
        \<notin> {bytes_of ''CONNECT'', bytes_of ''CLOSE'', bytes_of ''RESET'', bytes_of ''SHUTDOWN''}"
      using assms(5) by simp
  qed
  have "written c1 = written (conn s)"
    using assms(1) by (simp add: readHeader_logs)
  moreover have "written c2 = written c1"
    using assms(4) by (rule readMessage_written)
  moreover have "written c3 = written c2"
    using assms(6) by (simp add: readHeader_logs)
  moreover have "written c4 = written c3"
    using assms(9) by (rule readMessage_written)
  ultimately show ?thesis using one two by simp
qed

lemma written_quiet_conn: "written (quiet_conn blocks) = []"
  by (simp add: quiet_conn_def)

lemma S6_header1:
  "readHeader (quiet_conn [(command_frame 5 (bytes_of ''PING''), None),
                           (buildFrame 5 (bytes_of ''x''), None)])
     = (Inr \<lparr>channelID = 5, isCommand = True, payloadLen = 4\<rparr>,
        (quiet_conn [(bytes_of ''PING'', None), (buildFrame 5 (bytes_of ''x''), None)])
          \<lparr>rlog := [6]\<rparr>)"
  by (simp add: readHeader_def readMessage_def readBytes_def limitReader_Read_def conn_Read_def
      decodeHeader_def Uint16_def Uint32_def command_frame_def PutUint16_def PutUint32_def
      quiet_conn_def bytes_of_def)

lemma S6_message1:
  "readMessage ((quiet_conn [(bytes_of ''PING'', None), (buildFrame 5 (bytes_of ''x''), None)])
                  \<lparr>rlog := [6]\<rparr>) 4
     = (Inr (bytes_of ''PING''),
        (quiet_conn [(buildFrame 5 (bytes_of ''x''), None)]) \<lparr>rlog := [6, 4]\<rparr>)"
  by (simp add: readMessage_def readBytes_def limitReader_Read_def conn_Read_def
      quiet_conn_def bytes_of_def)

lemma S6_header2:
  "readHeader ((quiet_conn [(buildFrame 5 (bytes_of ''x''), None)]) \<lparr>rlog := [6, 4]\<rparr>)
     = (Inr \<lparr>channelID = 5, isCommand = False, payloadLen = 1\<rparr>,
        (quiet_conn [(bytes_of ''x'', None)]) \<lparr>rlog := [6, 4, 6]\<rparr>)"
  by (simp add: readHeader_def readMessage_def readBytes_def limitReader_Read_def conn_Read_def
      decodeHeader_def Uint16_def Uint32_def buildFrame_def PutUint16_def PutUint32_def
      quiet_conn_def bytes_of_def)

lemma S6_message2:
  "readMessage ((quiet_conn [(bytes_of ''x'', None)]) \<lparr>rlog := [6, 4, 6]\<rparr>) 1
     = (Inr (bytes_of ''x''), (quiet_conn []) \<lparr>rlog := [6, 4, 6, 1]\<rparr>)"
  by (simp add: readMessage_def readBytes_def limitReader_Read_def conn_Read_def
      quiet_conn_def bytes_of_def)

lemma PING_unknown:
  "bytes_of ''PING'' \<notin> {bytes_of ''CONNECT'', bytes_of ''CLOSE'', bytes_of ''RESET'', bytes_of ''SHUTDOWN''}"
  by (simp add: bytes_of_def)

text \<open>
  Claim C8 as stated fails: after the command \<open>PING\<close> and the argument \<open>x\<close> on
  channel 5, the session goes on with \<open>cmd = PING\<close> and \<open>arg = x\<close>, neither of them
  empty. The \<^verbatim>\<open>default\<close> branch of the switch only logs.
\<close>

theorem unknown_command_not_cleared:
  "reverse_iter no_agent
     \<lparr>conn = quiet_conn [(command_frame 5 (bytes_of ''PING''), None),
                         (buildFrame 5 (bytes_of ''x''), None)],
      cmd = [], arg = [], requests = []\<rparr>
     = Continue \<lparr>conn = (quiet_conn [(buildFrame 5 (bytes_of ''x''), None)]) \<lparr>rlog := [6, 4]\<rparr>,
                 cmd = bytes_of ''PING'', arg = [], requests = []\<rparr>
   \<and> reverse_iter no_agent
        \<lparr>conn = (quiet_conn [(buildFrame 5 (bytes_of ''x''), None)]) \<lparr>rlog := [6, 4]\<rparr>,
         cmd = bytes_of ''PING'', arg = [], requests = []\<rparr>
     = Continue \<lparr>conn = (quiet_conn []) \<lparr>rlog := [6, 4, 6, 1]\<rparr>,
                 cmd = bytes_of ''PING'', arg = bytes_of ''x'', requests = []\<rparr>
   \<and> bytes_of ''PING'' \<noteq> [] \<and> bytes_of ''x'' \<noteq> []"
proof -
  have "reverse_iter no_agent
     \<lparr>conn = quiet_conn [(command_frame 5 (bytes_of ''PING''), None),
                         (buildFrame 5 (bytes_of ''x''), None)],
      cmd = [], arg = [], requests = []\<rparr>
     = Continue \<lparr>conn = (quiet_conn [(buildFrame 5 (bytes_of ''x''), None)]) \<lparr>rlog := [6, 4]\<rparr>,
                 cmd = bytes_of ''PING'', arg = [], requests = []\<rparr>"
    by (rule reverse_iter_unknown [where hdr = "\<lparr>channelID = 5, isCommand = True, payloadLen = 4\<rparr>"
          and msg = "bytes_of ''PING''"
          and ?c1.0 = "(quiet_conn [(bytes_of ''PING'', None), (buildFrame 5 (bytes_of ''x''), None)])
                         \<lparr>rlog := [6]\<rparr>"
          and ?c2.0 = "(quiet_conn [(buildFrame 5 (bytes_of ''x''), None)]) \<lparr>rlog := [6, 4]\<rparr>"])
      (use PING_unknown in \<open>simp_all add: S6_header1 S6_message1\<close>)
  moreover have "reverse_iter no_agent
        \<lparr>conn = (quiet_conn [(buildFrame 5 (bytes_of ''x''), None)]) \<lparr>rlog := [6, 4]\<rparr>,
         cmd = bytes_of ''PING'', arg = [], requests = []\<rparr>
     = Continue \<lparr>conn = (quiet_conn []) \<lparr>rlog := [6, 4, 6, 1]\<rparr>,
                 cmd = bytes_of ''PING'', arg = bytes_of ''x'', requests = []\<rparr>"
    by (rule reverse_iter_unknown [where hdr = "\<lparr>channelID = 5, isCommand = False, payloadLen = 1\<rparr>"
          and msg = "bytes_of ''x''"
          and ?c1.0 = "(quiet_conn [(bytes_of ''x'', None)]) \<lparr>rlog := [6, 4, 6]\<rparr>"
          and ?c2.0 = "(quiet_conn []) \<lparr>rlog := [6, 4, 6, 1]\<rparr>"])
      (use PING_unknown in \<open>simp_all add: S6_header2 S6_message2\<close>)
  moreover have "bytes_of ''PING'' \<noteq> [] \<and> bytes_of ''x'' \<noteq> []"
    by (simp add: bytes_of_def)
  ultimately show ?thesis by simp
qed

theorem unknown_command_keeps_accumulators_witness:
  "readHeader (conn \<lparr>conn = quiet_conn [(command_frame 9 (bytes_of ''PING''), None),
                                         (buildFrame 9 (bytes_of ''x''), None)],
                     cmd = [], arg = [], requests = []\<rparr>)
     = (Inr \<lparr>channelID = 9, isCommand = True, payloadLen = 4\<rparr>,
        (quiet_conn [(bytes_of ''PING'', None), (buildFrame 9 (bytes_of ''x''), None)])
          \<lparr>rlog := [6]\<rparr>)
   \<and> bytes_of ''PING'' \<notin> {bytes_of ''CONNECT'', bytes_of ''CLOSE'', bytes_of ''RESET'',
                             bytes_of ''SHUTDOWN''}
   \<and> reverse_iter no_agent
        \<lparr>conn = quiet_conn [(command_frame 9 (bytes_of ''PING''), None),
                            (buildFrame 9 (bytes_of ''x''), None)],
         cmd = [], arg = [], requests = []\<rparr>
     = Continue \<lparr>conn = (quiet_conn [(buildFrame 9 (bytes_of ''x''), None)]) \<lparr>rlog := [6, 4]\<rparr>,
                 cmd = bytes_of ''PING'', arg = [], requests = []\<rparr>
   \<and> reverse_iter no_agent
        \<lparr>conn = (quiet_conn [(buildFrame 9 (bytes_of ''x''), None)]) \<lparr>rlog := [6, 4]\<rparr>,
         cmd = bytes_of ''PING'', arg = [], requests = []\<rparr>
     = Continue \<lparr>conn = (quiet_conn []) \<lparr>rlog := [6, 4, 6, 1]\<rparr>,
                 cmd = bytes_of ''PING'', arg = bytes_of ''x'', requests = []\<rparr>
   \<and> written ((quiet_conn []) \<lparr>rlog := [6, 4, 6, 1]\<rparr>) = []"
proof -
  have h1: "readHeader (conn \<lparr>conn = quiet_conn [(command_frame 9 (bytes_of ''PING''), None),
                                         (buildFrame 9 (bytes_of ''x''), None)],
                     cmd = [], arg = [], requests = []\<rparr>)
     = (Inr \<lparr>channelID = 9, isCommand = True, payloadLen = 4\<rparr>,
        (quiet_conn [(bytes_of ''PING'', None), (buildFrame 9 (bytes_of ''x''), None)])
          \<lparr>rlog := [6]\<rparr>)"
    by (simp add: readHeader_def readMessage_def readBytes_def limitReader_Read_def conn_Read_def
      decodeHeader_def Uint16_def Uint32_def command_frame_def PutUint16_def PutUint32_def
      quiet_conn_def bytes_of_def)
  have m1: "readMessage ((quiet_conn [(bytes_of ''PING'', None), (buildFrame 9 (bytes_of ''x''), None)])
                  \<lparr>rlog := [6]\<rparr>) (payloadLen \<lparr>channelID = 9, isCommand = True, payloadLen = 4\<rparr>)
     = (Inr (bytes_of ''PING''),
        (quiet_conn [(buildFrame 9 (bytes_of ''x''), None)]) \<lparr>rlog := [6, 4]\<rparr>)"
    by (simp add: readMessage_def readBytes_def limitReader_Read_def conn_Read_def
      quiet_conn_def bytes_of_def)
  have h2: "readHeader ((quiet_conn [(buildFrame 9 (bytes_of ''x''), None)]) \<lparr>rlog := [6, 4]\<rparr>)
     = (Inr \<lparr>channelID = 9, isCommand = False, payloadLen = 1\<rparr>,
        (quiet_conn [(bytes_of ''x'', None)]) \<lparr>rlog := [6, 4, 6]\<rparr>)"
    by (simp add: readHeader_def readMessage_def readBytes_def limitReader_Read_def conn_Read_def
      decodeHeader_def Uint16_def Uint32_def buildFrame_def PutUint16_def PutUint32_def
      quiet_conn_def bytes_of_def)
  have m2: "readMessage ((quiet_conn [(bytes_of ''x'', None)]) \<lparr>rlog := [6, 4, 6]\<rparr>)
       (payloadLen \<lparr>channelID = 9, isCommand = False, payloadLen = 1\<rparr>)
     = (Inr (bytes_of ''x''), (quiet_conn []) \<lparr>rlog := [6, 4, 6, 1]\<rparr>)"
    by (simp add: readMessage_def readBytes_def limitReader_Read_def conn_Read_def
      quiet_conn_def bytes_of_def)
  show ?thesis
    using unknown_command_keeps_accumulators [OF h1 _ _ m1 PING_unknown h2 _ _ m2, of no_agent]
      h1 PING_unknown
    by (simp add: written_quiet_conn)
qed


lemma dispatch_connect_requests:
  assumes "cmd s = bytes_of ''CONNECT''" and "arg s \<noteq> []"
  shows "requests (session_of (dispatch ag hdr s)) = requests s @ [arg s]"
  using assms by (simp add: dispatch_def Let_def split: prod.splits option.splits)

lemma dispatch_other_keeps_arg:
  assumes "cmd s \<noteq> bytes_of ''CONNECT''"
  shows "arg (session_of (dispatch ag hdr s)) = arg s"
  using assms by (simp add: dispatch_def)

text \<open>
  Claim C9. When a \<^verbatim>\<open>CONNECT\<close> command frame arrives while \<open>arg\<close> is not empty, the
  iteration that stored the command also runs the \<^verbatim>\<open>CONNECT\<close> branch: the local fetch
  is made in that same iteration, with the argument that was left in \<open>arg\<close>. Such an
  argument can be left over because a dispatch on any command other than \<^verbatim>\<open>CONNECT\<close>
  leaves \<open>arg\<close> as it is.
\<close>

theorem connect_dispatches_on_stale_arg:
  assumes "readHeader (conn s) = (Inr hdr, c1)" and "isCommand hdr"
    and "unat (payloadLen hdr) \<le> 65529"
    and "readMessage c1 (payloadLen hdr) = (Inr (bytes_of ''CONNECT''), c2)"
    and "arg s \<noteq> []"
    and "cmd s0 \<noteq> bytes_of ''CONNECT''"
  shows "reverse_iter ag s = dispatch ag hdr (s\<lparr>conn := c2, cmd := bytes_of ''CONNECT''\<rparr>)
       \<and> requests (session_of (reverse_iter ag s)) = requests s @ [arg s]
       \<and> arg (session_of (dispatch ag hdr0 s0)) = arg s0"
proof -
  have i: "reverse_iter ag s = dispatch ag hdr (s\<lparr>conn := c2, cmd := bytes_of ''CONNECT''\<rparr>)"
    using reverse_iter_frame [OF assms(1,3,4)] assms(2) by simp
  have "requests (session_of (dispatch ag hdr (s\<lparr>conn := c2, cmd := bytes_of ''CONNECT''\<rparr>)))
      = requests (s\<lparr>conn := c2, cmd := bytes_of ''CONNECT''\<rparr>)
          @ [arg (s\<lparr>conn := c2, cmd := bytes_of ''CONNECT''\<rparr>)]"
    by (rule dispatch_connect_requests) (use assms(5) in simp_all)
  then have "requests (session_of (reverse_iter ag s)) = requests s @ [arg s]"
    using i by simp
  moreover have "arg (session_of (dispatch ag hdr0 s0)) = arg s0"
    using assms(6) by (rule dispatch_other_keeps_arg)
  ultimately show ?thesis using i by simp
qed

lemma stale_header:
  "readHeader (quiet_conn [(command_frame 5 (bytes_of ''CONNECT''), None)])
     = (Inr \<lparr>channelID = 5, isCommand = True, payloadLen = 7\<rparr>,
        (quiet_conn [(bytes_of ''CONNECT'', None)]) \<lparr>rlog := [6]\<rparr>)"
  by (simp add: readHeader_def readMessage_def readBytes_def limitReader_Read_def conn_Read_def
      decodeHeader_def Uint16_def Uint32_def command_frame_def PutUint16_def PutUint32_def
      quiet_conn_def bytes_of_def)

lemma stale_message:
  "readMessage ((quiet_conn [(bytes_of ''CONNECT'', None)]) \<lparr>rlog := [6]\<rparr>) 7
     = (Inr (bytes_of ''CONNECT''), (quiet_conn []) \<lparr>rlog := [6, 7]\<rparr>)"
  by (simp add: readMessage_def readBytes_def limitReader_Read_def conn_Read_def
      quiet_conn_def bytes_of_def)

lemma stale_dispatch:
  "dispatch (const_agent (bytes_of ''[1]'')) \<lparr>channelID = 5, isCommand = True, payloadLen = 7\<rparr>
     \<lparr>conn = (quiet_conn []) \<lparr>rlog := [6, 7]\<rparr>, cmd = bytes_of ''CONNECT'',
      arg = bytes_of ''x'', requests = []\<rparr>
   = Continue \<lparr>conn = (quiet_conn []) \<lparr>rlog := [6, 7], written := [buildFrame 5 (bytes_of ''[1]'')]\<rparr>,
               cmd = [], arg = [], requests = [bytes_of ''x'']\<rparr>"
proof -
  have "sendMetricData (bytes_of ''[1]'') ((quiet_conn []) \<lparr>rlog := [6, 7]\<rparr>) 5 (bytes_of ''x'')
      = (None, ((quiet_conn []) \<lparr>rlog := [6, 7]\<rparr>)
           \<lparr>written := written ((quiet_conn []) \<lparr>rlog := [6, 7]\<rparr>)
               @ [buildFrame 5 (take maxPayloadLen (bytes_of ''[1]''))]\<rparr>)"
    by (rule sendMetricData_one_frame) (simp_all add: bytes_of_def maxPayloadLen_def quiet_conn_def)
  moreover have "take maxPayloadLen (bytes_of ''[1]'') = bytes_of ''[1]''"
    by (simp add: bytes_of_def maxPayloadLen_def)
  moreover have "bytes_of ''x'' \<noteq> []"
    by (simp add: bytes_of_def)
  ultimately show ?thesis
    by (simp add: dispatch_def const_agent_def fetchMetricData_def quiet_conn_def)
qed

theorem connect_dispatches_on_stale_arg_witness:
  "readHeader (conn \<lparr>conn = quiet_conn [(command_frame 5 (bytes_of ''CONNECT''), None)],
                     cmd = bytes_of ''PING'', arg = bytes_of ''x'', requests = []\<rparr>)
     = (Inr \<lparr>channelID = 5, isCommand = True, payloadLen = 7\<rparr>,
        (quiet_conn [(bytes_of ''CONNECT'', None)]) \<lparr>rlog := [6]\<rparr>)
   \<and> bytes_of ''x'' \<noteq> []
   \<and> bytes_of ''PING'' \<noteq> bytes_of ''CONNECT''
   \<and> reverse_iter (const_agent (bytes_of ''[1]''))
        \<lparr>conn = quiet_conn [(command_frame 5 (bytes_of ''CONNECT''), None)],
         cmd = bytes_of ''PING'', arg = bytes_of ''x'', requests = []\<rparr>
     = Continue \<lparr>conn = (quiet_conn [])
                          \<lparr>rlog := [6, 7], written := [buildFrame 5 (bytes_of ''[1]'')]\<rparr>,
                 cmd = [], arg = [], requests = [bytes_of ''x'']\<rparr>
   \<and> requests (session_of (reverse_iter (const_agent (bytes_of ''[1]''))
        \<lparr>conn = quiet_conn [(command_frame 5 (bytes_of ''CONNECT''), None)],
         cmd = bytes_of ''PING'', arg = bytes_of ''x'', requests = []\<rparr>)) = [bytes_of ''x'']"
proof -
  have x: "bytes_of ''x'' \<noteq> []" and p: "bytes_of ''PING'' \<noteq> bytes_of ''CONNECT''"
    by (simp_all add: bytes_of_def)
  show ?thesis
    using connect_dispatches_on_stale_arg [of
        "\<lparr>conn = quiet_conn [(command_frame 5 (bytes_of ''CONNECT''), None)],
          cmd = bytes_of ''PING'', arg = bytes_of ''x'', requests = []\<rparr>"
        "\<lparr>channelID = 5, isCommand = True, payloadLen = 7\<rparr>"
        "(quiet_conn [(bytes_of ''CONNECT'', None)]) \<lparr>rlog := [6]\<rparr>"
        "(quiet_conn []) \<lparr>rlog := [6, 7]\<rparr>"
        "\<lparr>conn = quiet_conn [], cmd = bytes_of ''PING'', arg = bytes_of ''x'', requests = []\<rparr>"
        "const_agent (bytes_of ''[1]'')"] x p
    by (simp add: stale_header stale_message stale_dispatch)
qed

section \<open>Properties of the supervisor\<close>








end
